theory Spec2Isabelle
  imports Main
begin

section \<open>The version selector\<close>

text \<open>
  \<^verbatim>\<open>enum Version { None, V1, V1Preview }\<close> (index.ts, lines 7-22). The member
  \<^verbatim>\<open>None\<close> carries a suffix here, since \<open>None\<close> is the empty option of HOL.
\<close>

datatype Version = None_Version | V1 | V1Preview

text \<open>
  \<^verbatim>\<open>Version[version]\<close>: the reverse mapping of a TypeScript numeric enum, from a
  member to its name.
\<close>

fun Version_name :: "Version \<Rightarrow> string" where
  "Version_name None_Version = ''None''"
| "Version_name V1 = ''V1''"
| "Version_name V1Preview = ''V1Preview''"

section \<open>Values that are thrown\<close>

text \<open>
  The two kinds of exception that occur in the dispatcher: the \<^verbatim>\<open>Error\<close> it constructs
  itself for an unsupported version, and the \<^verbatim>\<open>SyntaxError\<close> that \<^verbatim>\<open>JSON.parse\<close>
  throws on a text that is not JSON. Each carries its message.
\<close>

datatype exn = Error string | SyntaxError string

section \<open>Url objects of Node's legacy \<^verbatim>\<open>url\<close> module\<close>

text \<open>
  \<^verbatim>\<open>url.parse\<close> returns a plain object with twelve data properties. The property
  \<^verbatim>\<open>query\<close> holds \<^verbatim>\<open>null\<close>, the query string, or (once a program has assigned one)
  an object of parameters, kept here in the order of its keys.
\<close>

datatype Query = QueryNull | QueryString string | QueryObject "(string \<times> string) list"

record Url =
  protocol :: "string option"
  slashes :: "bool option"
  auth :: "string option"
  host :: "string option"
  port :: "string option"
  hostname :: "string option"
  hash :: "string option"
  search :: "string option"
  query :: Query
  pathname :: "string option"
  path :: "string option"
  href :: string

definition until :: "char \<Rightarrow> string \<Rightarrow> string" where
  "until c s = takeWhile (\<lambda>x. x \<noteq> c) s"

definition starting_at :: "char \<Rightarrow> string \<Rightarrow> string option" where
  "starting_at c s = (case dropWhile (\<lambda>x. x \<noteq> c) s of [] \<Rightarrow> None | r \<Rightarrow> Some r)"

definition or_empty :: "string option \<Rightarrow> string" where
  "or_empty s = (case s of None \<Rightarrow> [] | Some r \<Rightarrow> r)"

text \<open>
  \<^verbatim>\<open>url.parse(s)\<close> with its two optional arguments left out, for an absolute URL
  \<^verbatim>\<open>scheme://host[:port][/path][?search][#hash]\<close> whose scheme and host are in lower
  case and which has no credentials part; both endpoints of the dispatcher are of that
  form. The parser cuts the text into its components and stores, as its last step, the
  recomposed text in \<^verbatim>\<open>href\<close>. \<^verbatim>\<open>href\<close> is a data property like the others: it is
  computed here, once, and a later assignment to another property does not touch it
  (only \<^verbatim>\<open>url.format\<close> reads the other properties again).
\<close>

definition url_parse :: "string \<Rightarrow> Url" where
  "url_parse s =
     (let hash_part = starting_at CHR ''#'' s;
          rest = until CHR ''#'' s;
          search_part = starting_at CHR ''?'' rest;
          rest = until CHR ''?'' rest;
          proto = until CHR '':'' rest @ '':'';
          rest = drop 1 (dropWhile (\<lambda>x. x \<noteq> CHR '':'') rest);
          slashed = (take 2 rest = ''//'');
          rest = (if slashed then drop 2 rest else rest);
          host_part = until CHR ''/'' rest;
          path_part = (case dropWhile (\<lambda>x. x \<noteq> CHR ''/'') rest of [] \<Rightarrow> ''/'' | r \<Rightarrow> r)
      in \<lparr> protocol = Some proto,
           slashes = (if slashed then Some True else None),
           auth = None,
           host = Some host_part,
           port = map_option (drop 1) (starting_at CHR '':'' host_part),
           hostname = Some (until CHR '':'' host_part),
           hash = hash_part,
           search = search_part,
           query = (case search_part of None \<Rightarrow> QueryNull | Some q \<Rightarrow> QueryString (drop 1 q)),
           pathname = Some path_part,
           path = Some (path_part @ or_empty search_part),
           href = proto @ (if slashed then ''//'' else []) @ host_part @ path_part
                    @ or_empty search_part @ or_empty hash_part \<rparr>)"

section \<open>Promises and the transport\<close>

text \<open>
  The state of a promise. \<^verbatim>\<open>resolve\<close> and \<^verbatim>\<open>reject\<close> are the two functions the
  \<^verbatim>\<open>Promise\<close> constructor hands to its executor: the first call of either settles the
  promise, every later call is ignored. The values resolved with here come out of
  \<^verbatim>\<open>JSON.parse\<close>, so none of them is a thenable and \<^verbatim>\<open>resolve\<close> fulfils at once.
\<close>

datatype ('e, 'v) Promise = Pending | Fulfilled 'v | Rejected 'e

definition resolve :: "'v \<Rightarrow> ('e, 'v) Promise \<Rightarrow> ('e, 'v) Promise" where
  "resolve v p = (case p of Pending \<Rightarrow> Fulfilled v | _ \<Rightarrow> p)"

definition reject :: "'e \<Rightarrow> ('e, 'v) Promise \<Rightarrow> ('e, 'v) Promise" where
  "reject e p = (case p of Pending \<Rightarrow> Rejected e | _ \<Rightarrow> p)"

definition settled :: "('e, 'v) Promise \<Rightarrow> bool" where
  "settled p = (case p of Pending \<Rightarrow> False | _ \<Rightarrow> True)"

text \<open>
  What the \<^verbatim>\<open>request\<close> library puts on the wire for \<^verbatim>\<open>request(uri, {}, callback)\<close>:
  with empty options, a GET of the given text.
\<close>

record HttpRequest =
  verb :: string
  uri :: string

definition request :: "string \<Rightarrow> HttpRequest" where
  "request u = \<lparr> verb = ''GET'', uri = u \<rparr>"

text \<open>The response object handed to the callback; the body comes as a separate argument.\<close>

record Response =
  statusCode :: nat

text \<open>
  An exchange in flight: the URL object the call built for it (its local \<^verbatim>\<open>uri\<close>), the
  request handed to the transport, and the promise that the callback registered with it
  closes over. The world is the list of exchanges started so far, oldest first; a call
  is known by the position of its exchange.
\<close>

record ('e, 'v) Exchange =
  url_object :: Url
  sent :: HttpRequest
  promise :: "('e, 'v) Promise"

type_synonym ('e, 'v) World = "('e, 'v) Exchange list"

section \<open>The dispatcher\<close>

text \<open>
  The switch of \<^verbatim>\<open>callApi\<close> (lines 142-152): the value of \<^verbatim>\<open>baseUri\<close> after it, or
  the error its default branch throws.
\<close>

definition baseUri :: "Version \<Rightarrow> exn + string" where
  "baseUri version =
     (case version of
        V1 \<Rightarrow> Inr ''https://api.projectoxford.ai/luis/v1/application''
      | V1Preview \<Rightarrow> Inr ''https://api.projectoxford.ai/luis/v1/application/preview''
      | _ \<Rightarrow> Inl (Error (''The specified version '' @ [CHR 0x27] @ Version_name version
                          @ [CHR 0x27] @ '' is not supported.'')))"

text \<open>
  Lines 154-159: the object \<^verbatim>\<open>uri\<close> after the assignment to its \<^verbatim>\<open>query\<close> property.
\<close>

definition uri_of :: "string \<Rightarrow> string \<Rightarrow> string \<Rightarrow> string \<Rightarrow> Url" where
  "uri_of = (\<lambda>base query applicationId subscriptionKey.
     (url_parse base)
       \<lparr> query := QueryObject [(''id'', applicationId),
                               (''subscription-key'', subscriptionKey),
                               (''q'', query)] \<rparr>)"

text \<open>
  The callback of lines 162-168, as a function of the promise it closes over. The parser
  \<^verbatim>\<open>JSON.parse\<close> is a parameter: it returns the parsed value, or the message of the
  \<^verbatim>\<open>SyntaxError\<close> it throws. The callback runs when the transport calls it, after the
  executor of the promise has returned, so an exception thrown in it is not turned into
  a rejection: it leaves the callback, and the promise stays as it was. The result is the
  exception that escaped, if any, and the promise.
\<close>

definition callApi_callback ::
  "(string \<Rightarrow> string + 'v) \<Rightarrow> 'e option \<Rightarrow> Response \<Rightarrow> string \<Rightarrow> ('e, 'v) Promise
     \<Rightarrow> exn option \<times> ('e, 'v) Promise" where
  "callApi_callback JSON_parse error response body p =
     (case error of
        Some e \<Rightarrow> (None, reject e p)
      | None \<Rightarrow>
          (case JSON_parse body of
             Inl message \<Rightarrow> (Some (SyntaxError message), p)
           | Inr v \<Rightarrow> (None, resolve v p)))"

text \<open>
  \<^verbatim>\<open>callApi\<close> (lines 141-170). It throws, or it builds \<^verbatim>\<open>uri\<close> and starts one
  exchange: the request for \<^verbatim>\<open>uri.href\<close> with a pending promise, which it returns
  (as the position of the exchange).
\<close>

definition callApi ::
  "string \<Rightarrow> Version \<Rightarrow> string \<Rightarrow> string \<Rightarrow> ('e, 'v) World
     \<Rightarrow> (exn + nat) \<times> ('e, 'v) World" where
  "callApi = (\<lambda>query version applicationId subscriptionKey w.
     case baseUri version of
       Inl err \<Rightarrow> (Inl err, w)
     | Inr base \<Rightarrow>
         (Inr (length w),
          w @ [\<lparr> url_object = uri_of base query applicationId subscriptionKey,
                 sent = request (href (uri_of base query applicationId subscriptionKey)),
                 promise = Pending \<rparr>]))"

text \<open>
  The transport completes the exchange at position \<open>h\<close>: it calls the callback of that
  exchange with an error, or with a response and its body.
\<close>

definition deliver ::
  "(string \<Rightarrow> string + 'v) \<Rightarrow> nat \<Rightarrow> 'e option \<Rightarrow> Response \<Rightarrow> string \<Rightarrow> ('e, 'v) World
     \<Rightarrow> exn option \<times> ('e, 'v) World" where
  "deliver JSON_parse h error response body w =
     (if h < length w
      then (case callApi_callback JSON_parse error response body (promise (w ! h)) of
              (thrown, p) \<Rightarrow> (thrown, w[h := (w ! h)\<lparr> promise := p \<rparr>]))
      else (None, w))"

section \<open>The factory\<close>

record ('e, 'v) Application =
  queryV1 :: "string \<Rightarrow> ('e, 'v) World \<Rightarrow> (exn + nat) \<times> ('e, 'v) World"
  queryV1Preview :: "string \<Rightarrow> ('e, 'v) World \<Rightarrow> (exn + nat) \<times> ('e, 'v) World"

definition create :: "string \<Rightarrow> string \<Rightarrow> ('e, 'v) Application" where
  "create applicationId subscriptionKey =
     \<lparr> queryV1 = (\<lambda>query. callApi query V1 applicationId subscriptionKey),
       queryV1Preview = (\<lambda>query. callApi query V1Preview applicationId subscriptionKey) \<rparr>"

section \<open>One call from start to completion\<close>

text \<open>
  A call is made in the world \<open>w\<close> and the transport then completes its exchange. The
  result is the exception that reached the caller or escaped the callback, if any, and
  the state of the returned promise (none when the call threw before returning one).
\<close>

definition completed ::
  "(string \<Rightarrow> string + 'v) \<Rightarrow> (('e, 'v) World \<Rightarrow> (exn + nat) \<times> ('e, 'v) World)
     \<Rightarrow> 'e option \<Rightarrow> Response \<Rightarrow> string \<Rightarrow> ('e, 'v) World
     \<Rightarrow> exn option \<times> ('e, 'v) Promise option" where
  "completed JSON_parse call error response body w =
     (case call w of
        (Inl err, w1) \<Rightarrow> (Some err, None)
      | (Inr h, w1) \<Rightarrow>
          (case deliver JSON_parse h error response body w1 of
             (thrown, w2) \<Rightarrow> (thrown, Some (promise (w2 ! h)))))"

text \<open>
  \<^verbatim>\<open>JSON.parse\<close> on the three literal documents, to run the model on a concrete parser:
  the empty text is not JSON (V8 reports "Unexpected end of JSON input"), the texts
  \<^verbatim>\<open>null\<close>, \<^verbatim>\<open>true\<close> and \<^verbatim>\<open>false\<close> are.
\<close>

datatype literal = Null | Bool bool

definition parse_literal :: "string \<Rightarrow> string + literal" where
  "parse_literal s =
     (if s = ''null'' then Inr Null
      else if s = ''true'' then Inr (Bool True)
      else if s = ''false'' then Inr (Bool False)
      else if s = [] then Inl ''Unexpected end of JSON input''
      else Inl ''Unexpected token'')"

section \<open>Basic facts\<close>

text \<open>The V1 endpoint, parsed: the components Node reports for it.\<close>

lemma url_parse_V1:
  "url_parse ''https://api.projectoxford.ai/luis/v1/application''
     = \<lparr> protocol = Some ''https:'', slashes = Some True, auth = None,
         host = Some ''api.projectoxford.ai'', port = None,
         hostname = Some ''api.projectoxford.ai'', hash = None, search = None,
         query = QueryNull, pathname = Some ''/luis/v1/application'',
         path = Some ''/luis/v1/application'',
         href = ''https://api.projectoxford.ai/luis/v1/application'' \<rparr>"
  by (simp add: url_parse_def until_def starting_at_def or_empty_def Let_def)

lemma href_url_parse_V1:
  "href (url_parse ''https://api.projectoxford.ai/luis/v1/application'')
     = ''https://api.projectoxford.ai/luis/v1/application''"
  by (simp add: url_parse_def until_def starting_at_def or_empty_def Let_def)

lemma href_url_parse_V1Preview:
  "href (url_parse ''https://api.projectoxford.ai/luis/v1/application/preview'')
     = ''https://api.projectoxford.ai/luis/v1/application/preview''"
  by (simp add: url_parse_def until_def starting_at_def or_empty_def Let_def)

lemma baseUri_V1: "baseUri V1 = Inr ''https://api.projectoxford.ai/luis/v1/application''"
  by (simp add: baseUri_def)

lemma baseUri_V1Preview:
  "baseUri V1Preview = Inr ''https://api.projectoxford.ai/luis/v1/application/preview''"
  by (simp add: baseUri_def)

lemma baseUri_None:
  "baseUri None_Version = Inl (Error ''The specified version 'None' is not supported.'')"
  by (simp add: baseUri_def)

text \<open>The assignment to \<^verbatim>\<open>uri.query\<close> changes that property and no other.\<close>

lemma href_uri_of: "href (uri_of base q a k) = href (url_parse base)"
  by (simp add: uri_of_def)

lemma query_uri_of:
  "query (uri_of base q a k) = QueryObject [(''id'', a), (''subscription-key'', k), (''q'', q)]"
  by (simp add: uri_of_def)

lemma callApi_V1:
  "callApi q V1 a k w =
     (Inr (length w),
      w @ [\<lparr> url_object = uri_of ''https://api.projectoxford.ai/luis/v1/application'' q a k,
             sent = request ''https://api.projectoxford.ai/luis/v1/application'',
             promise = Pending \<rparr>])"
  by (simp add: callApi_def baseUri_V1 href_uri_of href_url_parse_V1)

lemma callApi_V1Preview:
  "callApi q V1Preview a k w =
     (Inr (length w),
      w @ [\<lparr> url_object =
               uri_of ''https://api.projectoxford.ai/luis/v1/application/preview'' q a k,
             sent = request ''https://api.projectoxford.ai/luis/v1/application/preview'',
             promise = Pending \<rparr>])"
  by (simp add: callApi_def baseUri_V1Preview href_uri_of href_url_parse_V1Preview)

lemma callApi_None:
  "callApi q None_Version a k w =
     (Inl (Error ''The specified version 'None' is not supported.''), w)"
  by (simp add: callApi_def baseUri_None)

lemma callApi_Inr:
  "callApi q v a k w = (Inr h, w1) \<Longrightarrow>
     \<exists>base. baseUri v = Inr base \<and> h = length w \<and>
       w1 = w @ [\<lparr> url_object = uri_of base q a k,
                      sent = request (href (uri_of base q a k)), promise = Pending \<rparr>]"
  by (auto simp add: callApi_def split: sum.splits)

lemma queryV1_create: "queryV1 (create a k) q = callApi q V1 a k"
  by (simp add: create_def)

lemma queryV1Preview_create: "queryV1Preview (create a k) q = callApi q V1Preview a k"
  by (simp add: create_def)

subsection \<open>The callback\<close>

lemma callback_error: "callApi_callback P (Some e) r b Pending = (None, Rejected e)"
  by (simp add: callApi_callback_def reject_def)

lemma callback_parsed:
  "P b = Inr v \<Longrightarrow> callApi_callback P None r b Pending = (None, Fulfilled v)"
  by (simp add: callApi_callback_def resolve_def)

lemma callback_unparsed:
  "P b = Inl m \<Longrightarrow> callApi_callback P None r b p = (Some (SyntaxError m), p)"
  by (simp add: callApi_callback_def)

text \<open>A settled promise stays as it is, whatever the callback is called with.\<close>

lemma callback_settled: "settled p \<Longrightarrow> snd (callApi_callback P e r b p) = p"
  by (cases p)
    (simp_all add: callApi_callback_def settled_def resolve_def reject_def
       split: option.splits sum.splits)

subsection \<open>Deliveries\<close>

lemma deliver_last:
  "deliver P (length w) e r b (w @ [x]) =
     (fst (callApi_callback P e r b (promise x)),
      w @ [x\<lparr> promise := snd (callApi_callback P e r b (promise x)) \<rparr>])"
  by (simp add: deliver_def split: prod.splits)

lemma deliver_sent: "map sent (snd (deliver P h e r b w)) = map sent w"
  by (auto simp add: deliver_def map_update list_update_same_conv split: prod.splits)

lemma deliver_commute:
  "h1 \<noteq> h2 \<Longrightarrow>
     snd (deliver P h1 e1 r1 b1 (snd (deliver P h2 e2 r2 b2 w)))
       = snd (deliver P h2 e2 r2 b2 (snd (deliver P h1 e1 r1 b1 w)))"
  by (auto simp add: deliver_def list_update_swap split: prod.splits)

lemma completed_callApi:
  "callApi q v a k w = (Inr h, w1) \<Longrightarrow>
   completed P (callApi q v a k) e r b w =
     (fst (callApi_callback P e r b Pending), Some (snd (callApi_callback P e r b Pending)))"
  by (auto simp add: completed_def callApi_def deliver_last split: sum.splits prod.splits)

lemma completed_V1:
  "completed P (callApi q V1 a k) e r b w =
     (fst (callApi_callback P e r b Pending), Some (snd (callApi_callback P e r b Pending)))"
  by (rule completed_callApi) (rule callApi_V1)

lemma completed_V1Preview:
  "completed P (callApi q V1Preview a k) e r b w =
     (fst (callApi_callback P e r b Pending), Some (snd (callApi_callback P e r b Pending)))"
  by (rule completed_callApi) (rule callApi_V1Preview)

text \<open>
  A body that does not parse: the \<^verbatim>\<open>SyntaxError\<close> escapes the callback and the
  promise of the call is still pending when the exchange is over.
\<close>

lemma completed_unparsed:
  "JSON_parse body = Inl m \<Longrightarrow>
     completed JSON_parse (queryV1 (create a k) q) None response body w
       = (Some (SyntaxError m), Some Pending)
   \<and> completed JSON_parse (queryV1Preview (create a k) q) None response body w
       = (Some (SyntaxError m), Some Pending)"
  by (simp add: queryV1_create queryV1Preview_create completed_V1 completed_V1Preview
        callback_unparsed)

text \<open>
  The request of a call does not depend on the query text or on the credentials: they
  go into \<^verbatim>\<open>uri.query\<close>, and the request is made for \<^verbatim>\<open>uri.href\<close>.
\<close>

lemma callApi_request_ignores_parameters:
  "map sent (snd (callApi q v a k w)) = map sent (snd (callApi q' v a' k' w))"
  by (simp add: callApi_def href_uri_of split: sum.splits)

section \<open>The claims\<close>

text \<open>
  C1. The claim: \<^verbatim>\<open>create("app-123", "key-abc").queryV1("book a flight to Paris")\<close>
  issues a single GET whose URI is the V1 endpoint followed by the three encoded
  parameters \<^verbatim>\<open>id\<close>, \<^verbatim>\<open>subscription-key\<close> and \<^verbatim>\<open>q\<close>. What the code does at this
  input: it issues a single GET, and its URI is the V1 endpoint alone. The three
  parameters are stored in the \<^verbatim>\<open>query\<close> property of the parsed URL, and the request
  is made for its \<^verbatim>\<open>href\<close> property, which still holds the text that was parsed.
\<close>

theorem queryV1_requests_bare_endpoint:
  "map sent (snd (queryV1 (create ''app-123'' ''key-abc'') ''book a flight to Paris'' []))
     = [\<lparr> verb = ''GET'', uri = ''https://api.projectoxford.ai/luis/v1/application'' \<rparr>]
   \<and> map (uri \<circ> sent)
       (snd (queryV1 (create ''app-123'' ''key-abc'') ''book a flight to Paris'' []))
     \<noteq> [''https://api.projectoxford.ai/luis/v1/application?id=app-123&subscription-key=key-abc&q=book%20a%20flight%20to%20Paris'']
   \<and> query (uri_of ''https://api.projectoxford.ai/luis/v1/application''
               ''book a flight to Paris'' ''app-123'' ''key-abc'')
     = QueryObject [(''id'', ''app-123''), (''subscription-key'', ''key-abc''),
                    (''q'', ''book a flight to Paris'')]"
  by (simp add: queryV1_create callApi_V1 request_def query_uri_of)

text \<open>
  C2. The claim: when the transport delivers a body that is not JSON, such as the empty
  text, the returned promise rejects with the parse failure. What the code does for
  the empty body: the \<^verbatim>\<open>SyntaxError\<close> of \<^verbatim>\<open>JSON.parse\<close> is thrown out of the
  callback, and the returned promise is neither rejected nor resolved.
\<close>

theorem empty_body_throws_and_leaves_pending:
  "completed parse_literal
     (queryV1 (create ''app-123'' ''key-abc'') ''book a flight to Paris'')
     None \<lparr> statusCode = 200 \<rparr> [] []
   = (Some (SyntaxError ''Unexpected end of JSON input''), Some Pending)"
  by (simp add: queryV1_create completed_V1 callback_unparsed parse_literal_def)

text \<open>
  C3. The dispatcher maps the selector V1 to the endpoint
  \<^verbatim>\<open>https://api.projectoxford.ai/luis/v1/application\<close> and the selector V1-preview to
  \<^verbatim>\<open>https://api.projectoxford.ai/luis/v1/application/preview\<close>, for every call: the
  exchange a call starts is for the URL object parsed from that endpoint.
\<close>

theorem baseUri_endpoints:
  "baseUri V1 = Inr ''https://api.projectoxford.ai/luis/v1/application''
   \<and> baseUri V1Preview = Inr ''https://api.projectoxford.ai/luis/v1/application/preview''
   \<and> callApi q V1 a k w =
       (Inr (length w),
        w @ [\<lparr> url_object = uri_of ''https://api.projectoxford.ai/luis/v1/application'' q a k,
               sent = request (href (uri_of
                 ''https://api.projectoxford.ai/luis/v1/application'' q a k)),
               promise = Pending \<rparr>])
   \<and> callApi q V1Preview a k w =
       (Inr (length w),
        w @ [\<lparr> url_object =
                 uri_of ''https://api.projectoxford.ai/luis/v1/application/preview'' q a k,
               sent = request (href (uri_of
                 ''https://api.projectoxford.ai/luis/v1/application/preview'' q a k)),
               promise = Pending \<rparr>])"
  by (simp add: callApi_def baseUri_V1 baseUri_V1Preview)

text \<open>
  C4. For every call of \<^verbatim>\<open>queryV1\<close> or \<^verbatim>\<open>queryV1Preview\<close> whose exchange the
  transport completes with an error, the returned promise is rejected with exactly
  that error, it is not resolved, and nothing is thrown.
\<close>

theorem transport_error_rejects:
  "completed P (queryV1 (create a k) q) (Some e) r b w = (None, Some (Rejected e))
   \<and> completed P (queryV1Preview (create a k) q) (Some e) r b w = (None, Some (Rejected e))"
  by (simp add: queryV1_create queryV1Preview_create completed_V1 completed_V1Preview
        callback_error)

text \<open>
  C5. For every call of \<^verbatim>\<open>queryV1\<close> or \<^verbatim>\<open>queryV1Preview\<close> whose exchange the
  transport completes without an error, whatever the response and its status code are:
  if the body parses, the promise is resolved with exactly the parsed value.
\<close>

theorem parsed_body_resolves:
  "JSON_parse body = Inr v \<Longrightarrow>
     completed JSON_parse (queryV1 (create a k) q) None response body w
       = (None, Some (Fulfilled v))
   \<and> completed JSON_parse (queryV1Preview (create a k) q) None response body w
       = (None, Some (Fulfilled v))"
  by (simp add: queryV1_create queryV1Preview_create completed_V1 completed_V1Preview
        callback_parsed)

theorem parsed_body_resolves_witness:
  "parse_literal ''null'' = Inr Null
   \<and> completed parse_literal
       (queryV1 (create ''app-123'' ''key-abc'') ''book a flight to Paris'')
       None \<lparr> statusCode = 500 \<rparr> ''null'' ([] :: (string, literal) World)
     = (None, Some (Fulfilled Null))
   \<and> completed parse_literal
       (queryV1Preview (create ''app-123'' ''key-abc'') ''book a flight to Paris'')
       None \<lparr> statusCode = 500 \<rparr> ''null'' ([] :: (string, literal) World)
     = (None, Some (Fulfilled Null))"
proof -
  have h: "parse_literal ''null'' = Inr Null"
    by (simp add: parse_literal_def)
  show ?thesis
    using h parsed_body_resolves
      [where JSON_parse = parse_literal and body = "''null''" and v = Null, OF h]
    by simp
qed

text \<open>
  C6. Reached with the selector \<^verbatim>\<open>None\<close>, the dispatcher throws an \<^verbatim>\<open>Error\<close> at
  once and starts no exchange: the world is as it was. That selector is the only
  one it throws for, and a call through \<^verbatim>\<open>queryV1\<close> or \<^verbatim>\<open>queryV1Preview\<close> of a
  created application never throws: it returns a promise.
\<close>

theorem unsupported_version_throws_before_request:
  "callApi q None_Version a k w
     = (Inl (Error ''The specified version 'None' is not supported.''), w)
   \<and> (\<exists>err. fst (callApi q version a k w) = Inl err) = (version = None_Version)
   \<and> fst (queryV1 (create a k) q w) = Inr (length w)
   \<and> fst (queryV1Preview (create a k) q w) = Inr (length w)"
  by (cases version)
    (simp_all add: callApi_None queryV1_create queryV1Preview_create callApi_V1
       callApi_V1Preview)

lemma completed_cases:
  "callApi q v a k w = (Inr h, w1) \<Longrightarrow>
   completed P (callApi q v a k) e r b w =
     (case e of
        Some x \<Rightarrow> (None, Some (Rejected x))
      | None \<Rightarrow>
          (case P b of
             Inl m \<Rightarrow> (Some (SyntaxError m), Some Pending)
           | Inr y \<Rightarrow> (None, Some (Fulfilled y))))"
  by (simp add: completed_callApi callApi_callback_def resolve_def reject_def
        split: option.splits sum.splits)

text \<open>
  C7. For all strings \<open>applicationId\<close> and \<open>subscriptionKey\<close>, the empty ones
  included, \<^verbatim>\<open>create\<close> returns an object of exactly the two operations
  \<^verbatim>\<open>queryV1\<close> and \<^verbatim>\<open>queryV1Preview\<close>, and each is the dispatcher with the two
  credentials and its own version selector: a call of either never throws and starts
  one exchange on top of the world it is made in, for the URL object parsed from the
  operation's endpoint and holding \<^verbatim>\<open>id\<close> = \<open>applicationId\<close>,
  \<^verbatim>\<open>subscription-key\<close> = \<open>subscriptionKey\<close> and \<^verbatim>\<open>q\<close> = the query. The credentials
  are taken as they are: two applications are the same only if both credentials are.
  \<^verbatim>\<open>create\<close> itself takes no world and returns none; the exchange appears when an
  operation is called.
\<close>

theorem create_delegates:
  "queryV1 (create applicationId subscriptionKey)
     = (\<lambda>query. callApi query V1 applicationId subscriptionKey)
   \<and> queryV1Preview (create applicationId subscriptionKey)
     = (\<lambda>query. callApi query V1Preview applicationId subscriptionKey)
   \<and> queryV1 (create applicationId subscriptionKey) q w
     = (Inr (length w),
        w @ [\<lparr> url_object =
                 (url_parse ''https://api.projectoxford.ai/luis/v1/application'')
                   \<lparr> query := QueryObject [(''id'', applicationId),
                                           (''subscription-key'', subscriptionKey),
                                           (''q'', q)] \<rparr>,
               sent = \<lparr> verb = ''GET'',
                        uri = ''https://api.projectoxford.ai/luis/v1/application'' \<rparr>,
               promise = Pending \<rparr>])
   \<and> queryV1Preview (create applicationId subscriptionKey) q w
     = (Inr (length w),
        w @ [\<lparr> url_object =
                 (url_parse ''https://api.projectoxford.ai/luis/v1/application/preview'')
                   \<lparr> query := QueryObject [(''id'', applicationId),
                                           (''subscription-key'', subscriptionKey),
                                           (''q'', q)] \<rparr>,
               sent = \<lparr> verb = ''GET'',
                        uri = ''https://api.projectoxford.ai/luis/v1/application/preview'' \<rparr>,
               promise = Pending \<rparr>])
   \<and> ((create applicationId subscriptionKey :: ('e, 'v) Application) = create a' k')
       = (applicationId = a' \<and> subscriptionKey = k')
   \<and> fst (queryV1 (create [] []) q w) = Inr (length w)
   \<and> fst (queryV1Preview (create [] []) q w) = Inr (length w)"
proof -
  have inj: "applicationId = a' \<and> subscriptionKey = k'"
    if eq: "(create applicationId subscriptionKey :: ('e, 'v) Application) = create a' k'"
  proof -
    from eq have "queryV1 (create applicationId subscriptionKey) [] ([] :: ('e, 'v) World)
        = queryV1 (create a' k') [] []"
      by simp
    then have "query (uri_of ''https://api.projectoxford.ai/luis/v1/application''
                   [] applicationId subscriptionKey)
        = query (uri_of ''https://api.projectoxford.ai/luis/v1/application'' [] a' k')"
      by (simp add: queryV1_create callApi_V1)
    then show ?thesis
      by (simp add: query_uri_of)
  qed
  have "((create applicationId subscriptionKey :: ('e, 'v) Application) = create a' k')
       = (applicationId = a' \<and> subscriptionKey = k')"
    using inj by blast
  then show ?thesis
    by (simp add: create_def callApi_V1 callApi_V1Preview uri_of_def request_def)
qed

text \<open>
  Two calls made one after the other never share an exchange, the request of each is
  the same in whatever world the call is made, and when the transport completes both
  exchanges, in either order, each promise ends as the callback leaves a pending promise
  on that call's own outcome, while the promises of the world before are untouched.
\<close>

lemma two_calls_independent:
  assumes c1: "callApi q1 v1 a1 k1 w = (Inr h1, w1)"
      and c2: "callApi q2 v2 a2 k2 w1 = (Inr h2, w2)"
  shows "h1 \<noteq> h2
    \<and> (\<exists>base1 base2. baseUri v1 = Inr base1 \<and> baseUri v2 = Inr base2
          \<and> sent (w2 ! h1) = request (href (uri_of base1 q1 a1 k1))
          \<and> sent (w2 ! h2) = request (href (uri_of base2 q2 a2 k2))
          \<and> query (uri_of base1 q1 a1 k1)
              = QueryObject [(''id'', a1), (''subscription-key'', k1), (''q'', q1)]
          \<and> query (uri_of base2 q2 a2 k2)
              = QueryObject [(''id'', a2), (''subscription-key'', k2), (''q'', q2)])
    \<and> (\<forall>w'. sent (w2 ! h1) = sent (snd (callApi q1 v1 a1 k1 w') ! length w'))
    \<and> (\<forall>w'. sent (w2 ! h2) = sent (snd (callApi q2 v2 a2 k2 w') ! length w'))
    \<and> (\<forall>P e1 r1 b1 e2 r2 b2.
          map promise (snd (deliver P h2 e2 r2 b2 (snd (deliver P h1 e1 r1 b1 w2))))
            = map promise w @ [snd (callApi_callback P e1 r1 b1 Pending),
                               snd (callApi_callback P e2 r2 b2 Pending)]
        \<and> snd (deliver P h1 e1 r1 b1 (snd (deliver P h2 e2 r2 b2 w2)))
            = snd (deliver P h2 e2 r2 b2 (snd (deliver P h1 e1 r1 b1 w2))))"
proof -
  from c1 obtain base1 where b1: "baseUri v1 = Inr base1" and h1: "h1 = length w"
    and w1: "w1 = w @ [\<lparr> url_object = uri_of base1 q1 a1 k1,
                          sent = request (href (uri_of base1 q1 a1 k1)),
                          promise = Pending \<rparr>]"
    using callApi_Inr by blast
  from c2 obtain base2 where b2: "baseUri v2 = Inr base2" and h2: "h2 = length w1"
    and w2: "w2 = w1 @ [\<lparr> url_object = uri_of base2 q2 a2 k2,
                           sent = request (href (uri_of base2 q2 a2 k2)),
                           promise = Pending \<rparr>]"
    using callApi_Inr by blast
  have ne: "h1 \<noteq> h2"
    using h1 h2 w1 by simp
  have s1: "sent (w2 ! h1) = request (href (uri_of base1 q1 a1 k1))"
    using h1 w1 w2 by (simp add: nth_append)
  have s2: "sent (w2 ! h2) = request (href (uri_of base2 q2 a2 k2))"
    using h2 w2 by simp
  have e: "\<exists>base1 base2. baseUri v1 = Inr base1 \<and> baseUri v2 = Inr base2
          \<and> sent (w2 ! h1) = request (href (uri_of base1 q1 a1 k1))
          \<and> sent (w2 ! h2) = request (href (uri_of base2 q2 a2 k2))
          \<and> query (uri_of base1 q1 a1 k1)
              = QueryObject [(''id'', a1), (''subscription-key'', k1), (''q'', q1)]
          \<and> query (uri_of base2 q2 a2 k2)
              = QueryObject [(''id'', a2), (''subscription-key'', k2), (''q'', q2)]"
    using b1 b2 s1 s2 query_uri_of by blast
  have i1: "\<forall>w'. sent (w2 ! h1) = sent (snd (callApi q1 v1 a1 k1 w') ! length w')"
    using b1 s1 by (simp add: callApi_def)
  have i2: "\<forall>w'. sent (w2 ! h2) = sent (snd (callApi q2 v2 a2 k2 w') ! length w')"
    using b2 s2 by (simp add: callApi_def)
  have d: "map promise (snd (deliver P h2 e2 r2 b2 (snd (deliver P h1 e1 r1 b1 w2))))
            = map promise w @ [snd (callApi_callback P e1 r1 b1 Pending),
                               snd (callApi_callback P e2 r2 b2 Pending)]"
    for P e1 r1 b1 e2 r2 b2
    using h1 h2 w1 w2
    by (simp add: deliver_def nth_append list_update_append split: prod.splits)
  have c: "snd (deliver P h1 e1 r1 b1 (snd (deliver P h2 e2 r2 b2 w2)))
            = snd (deliver P h2 e2 r2 b2 (snd (deliver P h1 e1 r1 b1 w2)))"
    for P e1 r1 b1 e2 r2 b2
    by (rule deliver_commute [OF ne])
  from ne e i1 i2 d c show ?thesis
    by blast
qed

text \<open>
  C8. The claim: the request URI of a call is a function of that call's query text,
  version selector and credentials, so that two applications with different
  credentials, each making one call, each send a request with its own endpoint and
  parameters. What the code does for the applications of \<^verbatim>\<open>("app-1", "key-1")\<close> and
  \<^verbatim>\<open>("app-2", "key-2")\<close>, each calling \<^verbatim>\<open>queryV1\<close> with a query of its own: the two
  requests are the same GET of the V1 endpoint, with the parameters of neither call;
  the parameters of each call are in the URL object of its exchange only.
\<close>

theorem different_credentials_same_request:
  "map sent
     (snd (queryV1 (create ''app-2'' ''key-2'') ''cancel my booking''
        (snd (queryV1 (create ''app-1'' ''key-1'') ''book a flight to Paris'' []))))
     = [\<lparr> verb = ''GET'', uri = ''https://api.projectoxford.ai/luis/v1/application'' \<rparr>,
        \<lparr> verb = ''GET'', uri = ''https://api.projectoxford.ai/luis/v1/application'' \<rparr>]
   \<and> map (query \<circ> url_object)
       (snd (queryV1 (create ''app-2'' ''key-2'') ''cancel my booking''
          (snd (queryV1 (create ''app-1'' ''key-1'') ''book a flight to Paris'' []))))
     = [QueryObject [(''id'', ''app-1''), (''subscription-key'', ''key-1''),
                     (''q'', ''book a flight to Paris'')],
        QueryObject [(''id'', ''app-2''), (''subscription-key'', ''key-2''),
                     (''q'', ''cancel my booking'')]]"
  by (simp add: queryV1_create callApi_V1 request_def query_uri_of)

text \<open>
  C9. The claim: for every outcome of the exchange, the returned promise settles
  exactly once. What the code does when the body does not parse (here the empty body,
  for \<^verbatim>\<open>queryV1Preview\<close>): the exchange is over and the promise has not settled.
  That no promise settles twice is lemma \<open>callback_settled\<close>.
\<close>

theorem empty_body_never_settles:
  "map_option settled
     (snd (completed parse_literal
        (queryV1Preview (create ''app-123'' ''key-abc'') ''book a flight to Paris'')
        None \<lparr> statusCode = 200 \<rparr> [] ([] :: (string, literal) World)))
   = Some False"
  by (simp add: queryV1Preview_create completed_V1Preview callback_unparsed
        parse_literal_def settled_def)

text \<open>
  C10. \<^verbatim>\<open>queryV1\<close> and \<^verbatim>\<open>queryV1Preview\<close> differ in the endpoint only. A call of
  either starts the same exchange but for the endpoint: the URL object parsed from the
  endpoint and given the same three parameters, a GET of the endpoint, a pending
  promise. However the transport completes that exchange, both do the same with it,
  whatever the response is: an error rejects the promise with that error; a body that
  parses resolves it with the parsed value as it is, of whichever shape; a body that
  does not parse leaves it pending, the \<^verbatim>\<open>SyntaxError\<close> thrown.
\<close>

theorem versions_share_dispatch:
  "queryV1 (create a k) q w
     = (Inr (length w),
        w @ [\<lparr> url_object =
                 (url_parse ''https://api.projectoxford.ai/luis/v1/application'')
                   \<lparr> query := QueryObject [(''id'', a), (''subscription-key'', k),
                                           (''q'', q)] \<rparr>,
               sent = \<lparr> verb = ''GET'',
                        uri = ''https://api.projectoxford.ai/luis/v1/application'' \<rparr>,
               promise = Pending \<rparr>])
   \<and> queryV1Preview (create a k) q w
     = (Inr (length w),
        w @ [\<lparr> url_object =
                 (url_parse ''https://api.projectoxford.ai/luis/v1/application/preview'')
                   \<lparr> query := QueryObject [(''id'', a), (''subscription-key'', k),
                                           (''q'', q)] \<rparr>,
               sent = \<lparr> verb = ''GET'',
                        uri = ''https://api.projectoxford.ai/luis/v1/application/preview'' \<rparr>,
               promise = Pending \<rparr>])
   \<and> completed P (queryV1 (create a k) q) e r b w
     = (case e of
          Some x \<Rightarrow> (None, Some (Rejected x))
        | None \<Rightarrow>
            (case P b of
               Inl m \<Rightarrow> (Some (SyntaxError m), Some Pending)
             | Inr y \<Rightarrow> (None, Some (Fulfilled y))))
   \<and> completed P (queryV1Preview (create a k) q) e r b w
     = (case e of
          Some x \<Rightarrow> (None, Some (Rejected x))
        | None \<Rightarrow>
            (case P b of
               Inl m \<Rightarrow> (Some (SyntaxError m), Some Pending)
             | Inr y \<Rightarrow> (None, Some (Fulfilled y))))
   \<and> completed P (queryV1 (create a k) q) e r b w
     = completed P (queryV1Preview (create a k) q) e r b w"
proof -
  have c1: "completed P (queryV1 (create a k) q) e r b w
     = (case e of
          Some x \<Rightarrow> (None, Some (Rejected x))
        | None \<Rightarrow>
            (case P b of
               Inl m \<Rightarrow> (Some (SyntaxError m), Some Pending)
             | Inr y \<Rightarrow> (None, Some (Fulfilled y))))"
    unfolding queryV1_create by (rule completed_cases) (rule callApi_V1)
  have c2: "completed P (queryV1Preview (create a k) q) e r b w
     = (case e of
          Some x \<Rightarrow> (None, Some (Rejected x))
        | None \<Rightarrow>
            (case P b of
               Inl m \<Rightarrow> (Some (SyntaxError m), Some Pending)
             | Inr y \<Rightarrow> (None, Some (Fulfilled y))))"
    unfolding queryV1Preview_create by (rule completed_cases) (rule callApi_V1Preview)
  have s1: "queryV1 (create a k) q w
     = (Inr (length w),
        w @ [\<lparr> url_object =
                 (url_parse ''https://api.projectoxford.ai/luis/v1/application'')
                   \<lparr> query := QueryObject [(''id'', a), (''subscription-key'', k),
                                           (''q'', q)] \<rparr>,
               sent = \<lparr> verb = ''GET'',
                        uri = ''https://api.projectoxford.ai/luis/v1/application'' \<rparr>,
               promise = Pending \<rparr>])"
    by (simp add: queryV1_create callApi_V1 uri_of_def request_def)
  have s2: "queryV1Preview (create a k) q w
     = (Inr (length w),
        w @ [\<lparr> url_object =
                 (url_parse ''https://api.projectoxford.ai/luis/v1/application/preview'')
                   \<lparr> query := QueryObject [(''id'', a), (''subscription-key'', k),
                                           (''q'', q)] \<rparr>,
               sent = \<lparr> verb = ''GET'',
                        uri = ''https://api.projectoxford.ai/luis/v1/application/preview'' \<rparr>,
               promise = Pending \<rparr>])"
    by (simp add: queryV1Preview_create callApi_V1Preview uri_of_def request_def)
  from s1 s2 c1 c2 show ?thesis
    by (simp only: simp_thms)
qed

end
